theory Spec2Isabelle
  imports Complex_Main "HOL-Library.Log_Nat"
begin

section \<open>Python strings: \<open>str.lower\<close>, \<open>str.split\<close> and the patterns \<open>\\bword\\b\<close>\<close>

text \<open>
  A transcript is a Python \<open>str\<close>. It is modelled as a \<open>string\<close> whose characters are the
  code points 0..255 (Latin-1), one \<open>char\<close> per code point. The three character classes
  below are the ones CPython uses on that range.
\<close>

definition py_isspace :: "char \<Rightarrow> bool" where
  \<comment> \<open>the separators of \<open>str.split()\<close> without argument\<close>
  "py_isspace c = (let n = (of_char c :: nat) in
     (9 \<le> n \<and> n \<le> 13) \<or> (28 \<le> n \<and> n \<le> 32) \<or> n = 133 \<or> n = 160)"

definition py_isword :: "char \<Rightarrow> bool" where
  \<comment> \<open>\<open>\\w\<close> of the module \<open>re\<close> on a \<open>str\<close> pattern: alphanumeric or underscore\<close>
  "py_isword c = (let n = (of_char c :: nat) in
     (48 \<le> n \<and> n \<le> 57) \<or> (65 \<le> n \<and> n \<le> 90) \<or> n = 95 \<or> (97 \<le> n \<and> n \<le> 122)
     \<or> n = 170 \<or> n = 178 \<or> n = 179 \<or> n = 181 \<or> n = 185 \<or> n = 186
     \<or> (188 \<le> n \<and> n \<le> 190) \<or> (192 \<le> n \<and> n \<le> 214) \<or> (216 \<le> n \<and> n \<le> 246)
     \<or> (248 \<le> n \<and> n \<le> 255))"

definition py_lower_char :: "char \<Rightarrow> char" where
  "py_lower_char c = (let n = (of_char c :: nat) in
     if (65 \<le> n \<and> n \<le> 90) \<or> (192 \<le> n \<and> n \<le> 222 \<and> n \<noteq> 215)
     then char_of (n + 32) else c)"

definition py_lower :: "string \<Rightarrow> string" where
  "py_lower s = map py_lower_char s"

text \<open>
  \<open>text.split()\<close>: the maximal runs of non-separator characters, in order. The first
  argument is the token being read.
\<close>

fun split_acc :: "string \<Rightarrow> string \<Rightarrow> string list" where
  "split_acc cur [] = (if cur = [] then [] else [cur])"
| "split_acc cur (c # cs) =
     (if py_isspace c then (if cur = [] then split_acc [] cs else cur # split_acc [] cs)
      else split_acc (cur @ [c]) cs)"

definition py_split :: "string \<Rightarrow> string list" where
  "py_split s = split_acc [] s"

text \<open>
  \<open>re.findall(r'\\bLIT\\b', s)\<close> for a non-empty literal \<open>LIT\<close>. \<open>match_here lit prevw s\<close>
  says that the pattern matches at the start of the suffix \<open>s\<close>, where \<open>prevw\<close> tells
  whether the character before the suffix is a word character (\<open>False\<close> at the start of
  the string). \<open>\\b\<close> holds where exactly one of the two neighbouring characters is a word
  character, the outside of the string counting as a non-word character.
\<close>

definition word_at_head :: "string \<Rightarrow> bool" where
  "word_at_head s = (case s of [] \<Rightarrow> False | c # _ \<Rightarrow> py_isword c)"

definition match_here :: "string \<Rightarrow> bool \<Rightarrow> string \<Rightarrow> bool" where
  "match_here lit prevw s =
     (lit \<noteq> [] \<and> prevw \<noteq> word_at_head s \<and> take (length lit) s = lit
      \<and> py_isword (last lit) \<noteq> word_at_head (drop (length lit) s))"

text \<open>
  \<open>findall\<close> scans from left to right and resumes after the end of each match: the
  third argument counts the characters of the last match still to be passed over.
\<close>

fun findall_scan :: "string \<Rightarrow> bool \<Rightarrow> nat \<Rightarrow> string \<Rightarrow> nat" where
  "findall_scan lit prevw skip [] = 0"
| "findall_scan lit prevw skip (c # cs) =
     (if 0 < skip then findall_scan lit (py_isword c) (skip - 1) cs
      else if match_here lit prevw (c # cs)
        then 1 + findall_scan lit (py_isword c) (length lit - 1) cs
      else findall_scan lit (py_isword c) 0 cs)"

definition findall_count :: "string \<Rightarrow> string \<Rightarrow> nat" where
  \<comment> \<open>\<open>len(re.findall(r'\\bLIT\\b', s))\<close>\<close>
  "findall_count lit s = findall_scan lit False 0 s"


section \<open>Filler words (\<open>detect_filler_words\<close>)\<close>

text \<open>
  \<open>filler_patterns\<close>: the key of each entry and the literal between the two \<open>\\b\<close> of its
  pattern, in the order of the dictionary.
\<close>

definition filler_patterns :: "(string \<times> string) list" where
  "filler_patterns =
     [(''um'', ''um''), (''uh'', ''uh''), (''like'', ''like''), (''you know'', ''you know''),
      (''so'', ''so''), (''actually'', ''actually''), (''basically'', ''basically'')]"

definition detect_filler_words :: "string \<Rightarrow> (string \<times> nat) list" where
  "detect_filler_words text =
     (let text_lower = py_lower text in
      map (\<lambda>(filler, pattern). (filler, findall_count pattern text_lower))
        (filter (\<lambda>(filler, pattern). 0 < findall_count pattern text_lower) filler_patterns))"



section \<open>Python exceptions and JSON values\<close>

text \<open>
  The handler of \<open>analyze_voice\<close> tells \<open>HTTPException\<close> (status code, detail) from every
  other exception, of which the model keeps the class name and the text \<open>str(e)\<close>.
\<close>

datatype pyexn = HTTPException nat string | Exception string string

fun exn_class :: "pyexn \<Rightarrow> string" where
  "exn_class (HTTPException status detail) = ''HTTPException''"
| "exn_class (Exception cls msg) = cls"

datatype json = JNull | JBool bool | JNum rat | JStr string | JArr "json list"
  | JObj "(string \<times> json) list"

type_synonym pydict = "string \<rightharpoonup> json"

section \<open>Speaking pace: \<open>int((word_count / recording_time) * 60)\<close>\<close>

text \<open>
  Both operands of \<open>/\<close> are Python integers, so \<open>word_count / recording_time\<close> is the
  double nearest to the exact quotient (ties to even); the product with 60 is rounded the
  same way, and \<open>int\<close> drops the fractional part. \<open>float_round\<close> is rounding to binary64:
  53 significant bits, exponents down to the subnormal step \<open>2 powi -1074\<close>, and \<open>None\<close>
  where the result leaves the finite range.
\<close>

definition round_half_even :: "rat \<Rightarrow> int" where
  "round_half_even y = (let f = \<lfloor>y\<rfloor>; d = y - of_int f in
     if d < 1 / 2 then f else if 1 / 2 < d then f + 1 else if even f then f else f + 1)"

definition ilog2 :: "rat \<Rightarrow> int" where
  \<comment> \<open>for \<open>0 < x\<close>, the exponent \<open>k\<close> with \<open>2 powi k \<le> x < 2 powi (k + 1)\<close>\<close>
  "ilog2 x = (let (a, b) = quotient_of x; d = bitlen a - bitlen b in
     if 2 powi d \<le> x then d else d - 1)"

definition float_round_pos :: "rat \<Rightarrow> rat" where
  "float_round_pos x = (let e = max (ilog2 x - 52) (- 1074) in
     of_int (round_half_even (x / 2 powi e)) * 2 powi e)"

definition float_round :: "rat \<Rightarrow> rat option" where
  "float_round x =
     (let r = (if x = 0 then 0 else if 0 < x then float_round_pos x
               else - float_round_pos (- x))
      in if \<bar>r\<bar> < 2 ^ 1024 then Some r else None)"

definition py_int :: "rat \<Rightarrow> int" where
  \<comment> \<open>\<open>int(x)\<close> of a finite float: truncation toward zero\<close>
  "py_int x = (if 0 \<le> x then \<lfloor>x\<rfloor> else \<lceil>x\<rceil>)"

definition speaking_pace :: "nat \<Rightarrow> int \<Rightarrow> pyexn + int" where
  "speaking_pace word_count recording_time =
     (if recording_time = 0 then Inl (Exception ''ZeroDivisionError'' ''division by zero'')
      else case float_round (of_nat word_count / of_int recording_time) of
        None \<Rightarrow>
          Inl (Exception ''OverflowError'' ''integer division result too large for a float'')
      | Some q \<Rightarrow>
          (case float_round (q * 60) of
             None \<Rightarrow>
               Inl (Exception ''OverflowError'' ''cannot convert float infinity to integer'')
           | Some p \<Rightarrow> Inr (py_int p)))"

text \<open>The value the specification names: the exact quotient, rounded to the nearest integer.\<close>

definition rounded_pace :: "nat \<Rightarrow> int \<Rightarrow> int" where
  "rounded_pace word_count duration_seconds =
     round (of_nat word_count / of_int duration_seconds * (60 :: rat))"

section \<open>\<open>analyze_transcription\<close>\<close>

text \<open>
  The chat completion is a call to an external service. Its reply, after \<open>json.loads\<close>,
  is the parameter \<open>gpt\<close>: a function of what the prompt embeds (the transcript and the
  pace), giving either the decoded object or the exception of the call or of the decoding.
  The result is the dictionary \<open>{**gpt_analysis, "speaking_pace": ..., "filler_words": ...,
  "word_count": ...}\<close>.
\<close>

definition analyze_transcription ::
  "(string \<Rightarrow> int \<Rightarrow> pyexn + pydict) \<Rightarrow> string \<Rightarrow> int \<Rightarrow> pyexn + pydict" where
  "analyze_transcription gpt text recording_time =
     (let word_count = length (py_split text) in
      case speaking_pace word_count recording_time of
        Inl e \<Rightarrow> Inl e
      | Inr pace \<Rightarrow>
          (let filler_words = detect_filler_words text in
           case gpt text pace of
             Inl e \<Rightarrow> Inl e
           | Inr gpt_analysis \<Rightarrow>
               Inr (gpt_analysis ++
                 [''speaking_pace'' \<mapsto> JNum (of_int pace),
                  ''filler_words'' \<mapsto> JObj (map (\<lambda>(k, n). (k, JNum (of_nat n))) filler_words),
                  ''word_count'' \<mapsto> JNum (of_nat word_count)])))"

text \<open>
  The dictionary that the function computes by itself, before the reply of the model is
  spread under it.
\<close>

definition rule_based_fields :: "string \<Rightarrow> int \<Rightarrow> pydict" where
  "rule_based_fields text pace =
     [''speaking_pace'' \<mapsto> JNum (of_int pace),
      ''filler_words'' \<mapsto> JObj (map (\<lambda>(k, n). (k, JNum (of_nat n))) (detect_filler_words text)),
      ''word_count'' \<mapsto> JNum (of_nat (length (py_split text)))]"

definition field_of :: "pyexn + pydict \<Rightarrow> string \<Rightarrow> json option" where
  "field_of r k = (case r of Inl e \<Rightarrow> None | Inr d \<Rightarrow> d k)"



section \<open>The endpoint \<open>analyze_voice\<close>\<close>

text \<open>
  The request (its \<open>Authorization\<close> header and its body), the two collections the
  endpoint writes and the logger are explicit state; time stamps are left out. Every call
  to a collaborator is given by its outcome, a value or the exception it raises:
  \<open>jwt.decode\<close> and \<open>base64.b64decode\<close> by their outcome for the token and the audio of
  this request, the user lookup and the usage check as functions of the user id, the
  transcription (the temporary file, the Whisper call and the removal of the file) as a
  function of the decoded bytes, the two chat completions as functions of what their
  prompts embed, and the four writes to the database by the exception they raise, if any.
\<close>

record voice_request =
  authorization :: "string option"
  audio_base64 :: string
  user_id :: "string option"
  recording_mode :: string
  recording_time :: int

record assessment_doc =
  doc_user_id :: string
  doc_audio_data :: string
  doc_processed :: bool
  doc_transcription :: "string option"
  doc_analysis :: "pydict option"
  doc_error :: "string option"

datatype log_level = ERROR | WARNING | INFO

record server_state =
  assessments :: "string \<rightharpoonup> assessment_doc"
  training_questions :: "string \<rightharpoonup> json list"
  logged :: "(log_level \<times> string) list"

record services =
  jwt_decode :: "pyexn + (string \<rightharpoonup> string)"
  find_user :: "string \<Rightarrow> pyexn + bool"
  check_can_create_assessment :: "string \<Rightarrow> pyexn + bool \<times> string"
  fresh_uuid :: string
  insert_assessment :: "pyexn option"
  b64decode :: "pyexn + string"
  whisper :: "string \<Rightarrow> pyexn + string"
  gpt_analysis :: "string \<Rightarrow> int \<Rightarrow> pyexn + pydict"
  gpt_questions :: "json \<Rightarrow> json \<Rightarrow> pyexn + json list"
  save_analysis :: "pyexn option"
  save_questions :: "pyexn option"
  mark_failed :: "pyexn option"

definition quoted :: "string \<Rightarrow> string" where
  \<comment> \<open>a name between single quotes, as Python prints it in its messages\<close>
  "quoted s = [CHR 0x27] @ s @ [CHR 0x27]"

text \<open>
  \<open>get_current_user\<close>: without the header, \<open>auth_header\<close> is \<open>None\<close> and
  \<open>auth_header.replace\<close> raises \<open>AttributeError\<close>; the token matters only through the
  outcome of \<open>jwt.decode\<close>; a payload without \<open>user_id\<close> raises \<open>KeyError\<close>; an unknown
  user raises \<open>HTTPException\<close> 401. The user is known by its id.
\<close>

definition get_current_user :: "services \<Rightarrow> voice_request \<Rightarrow> pyexn + string" where
  "get_current_user sv req =
     (case authorization req of
        None \<Rightarrow> Inl (Exception ''AttributeError''
                    (quoted ''NoneType'' @ '' object has no attribute '' @ quoted ''replace''))
      | Some auth_header \<Rightarrow>
     (case jwt_decode sv of
        Inl e \<Rightarrow> Inl e
      | Inr payload \<Rightarrow>
     (case payload ''user_id'' of
        None \<Rightarrow> Inl (Exception ''KeyError'' (quoted ''user_id''))
      | Some uid \<Rightarrow>
     (case find_user sv uid of
        Inl e \<Rightarrow> Inl e
      | Inr found \<Rightarrow>
          if found then Inr uid else Inl (HTTPException 401 ''Not authenticated'')))))"

text \<open>Step 1: authentication and usage check.\<close>

definition authorize :: "services \<Rightarrow> voice_request \<Rightarrow> pyexn + string" where
  "authorize sv req =
     (case get_current_user sv req of
        Inl e \<Rightarrow> Inl e
      | Inr user \<Rightarrow>
     (case check_can_create_assessment sv user of
        Inl e \<Rightarrow> Inl e
      | Inr (allowed, reason) \<Rightarrow>
          if allowed then Inr user else Inl (HTTPException 403 reason)))"

text \<open>
  \<open>generate_training_questions\<close>: the prompt reads \<open>analysis['archetype']\<close> and
  \<open>analysis['improvements']\<close>, each a \<open>KeyError\<close> when the key is missing; the result is
  \<open>json.loads(...)["questions"][:10]\<close>.
\<close>

definition generate_training_questions ::
  "(json \<Rightarrow> json \<Rightarrow> pyexn + json list) \<Rightarrow> pydict \<Rightarrow> string \<Rightarrow> pyexn + json list" where
  "generate_training_questions gpt analysis transcription =
     (case analysis ''archetype'' of
        None \<Rightarrow> Inl (Exception ''KeyError'' (quoted ''archetype''))
      | Some archetype \<Rightarrow>
     (case analysis ''improvements'' of
        None \<Rightarrow> Inl (Exception ''KeyError'' (quoted ''improvements''))
      | Some improvements \<Rightarrow>
     (case gpt archetype improvements of
        Inl e \<Rightarrow> Inl e
      | Inr questions \<Rightarrow> Inr (take 10 questions))))"

definition update_one ::
  "string \<Rightarrow> (assessment_doc \<Rightarrow> assessment_doc) \<Rightarrow> (string \<rightharpoonup> assessment_doc)
     \<Rightarrow> (string \<rightharpoonup> assessment_doc)" where
  "update_one key f coll = (case coll key of None \<Rightarrow> coll | Some d \<Rightarrow> coll(key \<mapsto> f d))"

text \<open>
  Steps 2 to 6, once \<open>assessment_id\<close> is assigned: create the assessment record, decode
  and transcribe, analyse, generate the questions, save.
\<close>

definition process_recording ::
  "services \<Rightarrow> voice_request \<Rightarrow> string \<Rightarrow> string \<Rightarrow> server_state
     \<Rightarrow> (pyexn + string \<times> string) \<times> server_state" where
  "process_recording sv req user assessment_id st =
     (case insert_assessment sv of
        Some e \<Rightarrow> (Inl e, st)
      | None \<Rightarrow>
     (let st1 = st\<lparr>assessments := (assessments st)(assessment_id \<mapsto>
                  \<lparr>doc_user_id = user, doc_audio_data = audio_base64 req,
                   doc_processed = False, doc_transcription = None,
                   doc_analysis = None, doc_error = None\<rparr>)\<rparr>
      in
     (case b64decode sv of
        Inl e \<Rightarrow> (Inl e, st1)
      | Inr audio_bytes \<Rightarrow>
     (case whisper sv audio_bytes of
        Inl e \<Rightarrow> (Inl e, st1)
      | Inr transcription \<Rightarrow>
     (case analyze_transcription (gpt_analysis sv) transcription (recording_time req) of
        Inl e \<Rightarrow> (Inl e, st1)
      | Inr analysis \<Rightarrow>
     (case generate_training_questions (gpt_questions sv) analysis transcription of
        Inl e \<Rightarrow> (Inl e, st1)
      | Inr questions \<Rightarrow>
     (case save_analysis sv of
        Some e \<Rightarrow> (Inl e, st1)
      | None \<Rightarrow>
     (let st2 = st1\<lparr>assessments :=
                  update_one assessment_id
                    (\<lambda>d. d\<lparr>doc_transcription := Some transcription,
                           doc_analysis := Some analysis, doc_processed := True\<rparr>)
                    (assessments st1)\<rparr>
      in
     (case save_questions sv of
        Some e \<Rightarrow> (Inl e, st2)
      | None \<Rightarrow>
          (Inr (assessment_id, ''completed''),
           st2\<lparr>training_questions :=
                 (training_questions st2)(assessment_id \<mapsto> questions)\<rparr>))))))))))"

text \<open>
  The handler of the endpoint: \<open>except HTTPException: raise\<close>, and for every other
  exception \<open>logger.error\<close>, the error stored on the assessment, and
  \<open>HTTPException(status_code=500, detail=str(e))\<close>. The handler reads \<open>assessment_id\<close>:
  when the exception was raised before the assignment (the second argument is \<open>None\<close>),
  the read raises \<open>UnboundLocalError\<close> after the log entry is written (the wording of
  its message is that of Python 3.11 and later). An exception of the handler's own
  database update leaves the handler as it is.
\<close>

definition handle_exception ::
  "services \<Rightarrow> string option \<Rightarrow> pyexn \<Rightarrow> server_state
     \<Rightarrow> (pyexn + string \<times> string) \<times> server_state" where
  "handle_exception sv assessment_id e st =
     (case e of
        HTTPException status detail \<Rightarrow> (Inl (HTTPException status detail), st)
      | Exception cls msg \<Rightarrow>
     (let st1 = st\<lparr>logged := logged st @ [(ERROR, ''Error: '' @ msg)]\<rparr> in
     (case assessment_id of
        None \<Rightarrow>
          (Inl (Exception ''UnboundLocalError''
             (''cannot access local variable '' @ quoted ''assessment_id''
              @ '' where it is not associated with a value'')), st1)
      | Some key \<Rightarrow>
     (case mark_failed sv of
        Some e2 \<Rightarrow> (Inl e2, st1)
      | None \<Rightarrow>
          (Inl (HTTPException 500 msg),
           st1\<lparr>assessments :=
                 update_one key (\<lambda>d. d\<lparr>doc_processed := True, doc_error := Some msg\<rparr>)
                   (assessments st1)\<rparr>)))))"

definition analyze_voice ::
  "services \<Rightarrow> voice_request \<Rightarrow> server_state \<Rightarrow> (pyexn + string \<times> string) \<times> server_state" where
  "analyze_voice sv req st =
     (case authorize sv req of
        Inl e \<Rightarrow> handle_exception sv None e st
      | Inr user \<Rightarrow>
     (case process_recording sv req user (fresh_uuid sv) st of
        (Inl e, st1) \<Rightarrow> handle_exception sv (Some (fresh_uuid sv)) e st1
      | (Inr response, st1) \<Rightarrow> (Inr response, st1)))"

text \<open>Concrete collaborators and requests for the examples.\<close>

definition gpt_reply :: "pydict \<Rightarrow> string \<Rightarrow> int \<Rightarrow> pyexn + pydict" where
  "gpt_reply d text pace = Inr d"

definition gpt_timeout :: "string \<Rightarrow> int \<Rightarrow> pyexn + pydict" where
  "gpt_timeout text pace = Inl (Exception ''APITimeoutError'' ''Request timed out.'')"

definition sample_reply :: pydict where
  "sample_reply = [''archetype'' \<mapsto> JStr ''Confident Presenter'', ''overall_score'' \<mapsto> JNum 82,
     ''clarity_score'' \<mapsto> JNum 85, ''confidence_score'' \<mapsto> JNum 80]"


text \<open>
  A request with a token for the user \<open>user-uuid\<close> and the audio \<open>AAAA\<close>, which decodes
  to three zero bytes; the database knows that user only, and no write fails.
\<close>

definition sample_request :: voice_request where
  "sample_request =
     \<lparr>authorization = Some (''Bearer eyJhbGciOiJIUzI1NiIsInR5cCI6IkpXVCJ9.''
        @ ''eyJ1c2VyX2lkIjoidXNlci11dWlkIn0.OuG0cGvKGF-pF6uf68gg82IY12j2I49mDaJ7dtDWXb4''),
      audio_base64 = ''AAAA'', user_id = Some ''user-uuid'', recording_mode = ''free'',
      recording_time = 45\<rparr>"

definition sample_services :: services where
  "sample_services =
     \<lparr>jwt_decode = Inr [''user_id'' \<mapsto> ''user-uuid''],
      find_user = (\<lambda>uid. Inr (uid = ''user-uuid'')),
      check_can_create_assessment = (\<lambda>uid. Inr (True, [])),
      fresh_uuid = ''uuid'', insert_assessment = None,
      b64decode = Inr [CHR 0x00, CHR 0x00, CHR 0x00],
      whisper = (\<lambda>audio. Inr ''Um, hello world''),
      gpt_analysis = gpt_reply sample_reply, gpt_questions = (\<lambda>a i. Inr []),
      save_analysis = None, save_questions = None, mark_failed = None\<rparr>"

definition empty_state :: server_state where
  "empty_state = \<lparr>assessments = Map.empty, training_questions = Map.empty, logged = []\<rparr>"

text \<open>The same run, with a chat completion that times out.\<close>

definition timeout_services :: services where
  "timeout_services = sample_services\<lparr>gpt_analysis := gpt_timeout\<rparr>"

text \<open>
  A request whose audio is \<open>AAA\<close>, for which \<open>base64.b64decode\<close> raises \<open>binascii.Error\<close>
  with the text \<open>Incorrect padding\<close>.
\<close>

definition undecodable_request :: voice_request where
  "undecodable_request = sample_request\<lparr>audio_base64 := ''AAA''\<rparr>"

definition undecodable_services :: services where
  "undecodable_services =
     sample_services\<lparr>b64decode := Inl (Exception ''Error'' ''Incorrect padding'')\<rparr>"

text \<open>A request without the \<open>Authorization\<close> header.\<close>

definition anonymous_request :: voice_request where
  "anonymous_request = sample_request\<lparr>authorization := None\<rparr>"

section \<open>The results screens (TypeScript)\<close>

text \<open>
  The analysis arrives as JSON, so every field may be missing: a field is an \<open>option\<close>,
  \<open>None\<close> standing for both \<open>undefined\<close> and \<open>null\<close>, and a number is a rational (JSON
  has no NaN). The prefixes \<open>ins_\<close>, \<open>met_\<close> and \<open>an_\<close> tell the fields of
  \<open>VoiceInsights\<close>, \<open>VoiceMetrics\<close> and \<open>VoiceAnalysis\<close> apart.
\<close>

record VoiceInsights =
  ins_voice_personality :: "string option"
  ins_headline :: "string option"
  ins_key_insights :: "string list option"
  ins_what_went_well :: "string list option"
  ins_growth_opportunities :: "string list option"
  ins_tone_description :: "string option"
  ins_overall_score :: "rat option"
  ins_clarity_score :: "rat option"
  ins_confidence_score :: "rat option"
  ins_personalized_tips :: "string list option"

record VoiceMetrics =
  met_speaking_pace :: "rat option"
  met_word_count :: "rat option"

record VoiceAnalysis =
  an_insights :: "VoiceInsights option"
  an_metrics :: "VoiceMetrics option"
  an_archetype :: "string option"
  an_overall_score :: "rat option"
  an_clarity_score :: "rat option"
  an_confidence_score :: "rat option"
  an_tone :: "string option"
  an_strengths :: "string list option"
  an_improvements :: "string list option"
  an_pitch_avg :: "rat option"
  an_pitch_range :: "string option"
  an_speaking_pace :: "rat option"
  an_filler_words :: "(string \<times> rat) list option"
  an_filler_count :: "rat option"
  an_word_count :: "rat option"

text \<open>The operators \<open>??\<close> and \<open>||\<close>: \<open>||\<close> also passes over \<open>0\<close> and the empty string.\<close>

definition nullish :: "'a option \<Rightarrow> 'a option \<Rightarrow> 'a option" where
  "nullish a b = (case a of None \<Rightarrow> b | Some x \<Rightarrow> Some x)"

definition or_num :: "rat option \<Rightarrow> rat option \<Rightarrow> rat option" where
  "or_num a b = (case a of None \<Rightarrow> b | Some x \<Rightarrow> if x = 0 then b else Some x)"

definition or_str :: "string option \<Rightarrow> string option \<Rightarrow> string option" where
  "or_str a b = (case a of None \<Rightarrow> b | Some s \<Rightarrow> if s = [] then b else Some s)"

text \<open>What a \<open>Text\<close> element shows: a number, a number with a unit, or a string.\<close>

datatype cell = Number rat | NumberUnit rat string | Str string

definition or_NA :: "rat option \<Rightarrow> cell" where
  \<comment> \<open>\<open>{value ?? 'N/A'}\<close>\<close>
  "or_NA v = (case v of None \<Rightarrow> Str ''N/A'' | Some x \<Rightarrow> Number x)"

subsection \<open>\<open>ResultsScreen\<close> (results.tsx)\<close>

definition overallScore :: "VoiceAnalysis option \<Rightarrow> rat option" where
  "overallScore analysis =
     nullish (nullish (Option.bind (Option.bind analysis an_insights) ins_overall_score)
                (Option.bind analysis an_overall_score)) None"

definition clarityScore :: "VoiceAnalysis option \<Rightarrow> rat option" where
  "clarityScore analysis =
     nullish (nullish (Option.bind (Option.bind analysis an_insights) ins_clarity_score)
                (Option.bind analysis an_clarity_score)) None"

definition confidenceScore :: "VoiceAnalysis option \<Rightarrow> rat option" where
  "confidenceScore analysis =
     nullish (nullish (Option.bind (Option.bind analysis an_insights) ins_confidence_score)
                (Option.bind analysis an_confidence_score)) None"

definition speakingPace :: "VoiceAnalysis option \<Rightarrow> rat option" where
  "speakingPace analysis =
     nullish (nullish (Option.bind (Option.bind analysis an_metrics) met_speaking_pace)
                (Option.bind analysis an_speaking_pace)) None"

definition pitchAvg :: "VoiceAnalysis option \<Rightarrow> rat option" where
  "pitchAvg analysis = nullish (Option.bind analysis an_pitch_avg) None"

definition pitchRange :: "VoiceAnalysis option \<Rightarrow> string option" where
  "pitchRange analysis = or_str (Option.bind analysis an_pitch_range) None"

definition fillerWords :: "VoiceAnalysis option \<Rightarrow> (string \<times> rat) list" where
  "fillerWords analysis =
     (case Option.bind analysis an_filler_words of None \<Rightarrow> [] | Some ws \<Rightarrow> ws)"

definition fillerCount :: "VoiceAnalysis option \<Rightarrow> rat" where
  "fillerCount analysis = (case Option.bind analysis an_filler_count of None \<Rightarrow> 0 | Some n \<Rightarrow> n)"

text \<open>The cells of the score card and of the three metric cards.\<close>

definition ResultsScreen_scores :: "VoiceAnalysis option \<Rightarrow> cell list" where
  "ResultsScreen_scores analysis =
     [or_NA (overallScore analysis), or_NA (clarityScore analysis),
      or_NA (confidenceScore analysis), or_NA (speakingPace analysis)]"

text \<open>
  The pitch section: rendered when \<open>pitchAvg !== null || pitchRange !== null\<close>, with the
  cells \<open>Average\<close> and \<open>Range\<close>.
\<close>

definition pitch_section :: "VoiceAnalysis option \<Rightarrow> (cell \<times> cell) option" where
  "pitch_section analysis =
     (if pitchAvg analysis \<noteq> None \<or> pitchRange analysis \<noteq> None
      then Some ((case pitchAvg analysis of None \<Rightarrow> Str ''N/A'' | Some x \<Rightarrow> NumberUnit x ''Hz''),
                 (case pitchRange analysis of None \<Rightarrow> Str ''N/A'' | Some r \<Rightarrow> Str r))
      else None)"

text \<open>
  The filler-word section. A JavaScript division by zero does not raise: it yields
  \<open>Infinity\<close>, \<open>-Infinity\<close> or \<open>NaN\<close>, all three written \<open>NotFinite\<close> here.
\<close>

datatype jsnum = Finite rat | NotFinite

definition js_div :: "rat \<Rightarrow> rat \<Rightarrow> jsnum" where
  "js_div a b = (if b = 0 then NotFinite else Finite (a / b))"

definition js_times :: "jsnum \<Rightarrow> rat \<Rightarrow> jsnum" where
  "js_times a b = (case a of NotFinite \<Rightarrow> NotFinite | Finite x \<Rightarrow> Finite (x * b))"

definition bar_width :: "rat \<Rightarrow> rat \<Rightarrow> jsnum" where
  \<comment> \<open>\<open>(count / fillerCount) * 100\<close>; the quotient is exact here, a double in JavaScript\<close>
  "bar_width count filler_total = js_times (js_div count filler_total) 100"

definition filler_section :: "VoiceAnalysis option \<Rightarrow> (string \<times> jsnum \<times> rat) list option" where
  "filler_section analysis =
     (if 0 < fillerCount analysis
      then Some (map (\<lambda>(word, count). (word, bar_width count (fillerCount analysis), count))
                   (fillerWords analysis))
      else None)"

subsection \<open>\<open>getOverallScore\<close> (types/index.ts)\<close>

definition getOverallScore :: "VoiceAnalysis option \<Rightarrow> rat option" where
  "getOverallScore analysis =
     (case analysis of
        None \<Rightarrow> None
      | Some a \<Rightarrow> nullish (Option.bind (an_insights a) ins_overall_score) (an_overall_score a))"

subsection \<open>\<open>PersonalizedResults\<close> and the history list\<close>

definition PersonalizedResults_score :: "VoiceAnalysis \<Rightarrow> rat option" where
  \<comment> \<open>\<open>insights?.overall_score || analysis.overall_score || 75\<close>\<close>
  "PersonalizedResults_score analysis =
     or_num (or_num (Option.bind (an_insights analysis) ins_overall_score)
               (an_overall_score analysis)) (Some 75)"

definition HistoryScreen_score :: "VoiceAnalysis option \<Rightarrow> rat option" where
  \<comment> \<open>\<open>item.analysis?.insights?.overall_score || item.analysis?.overall_score || 0\<close>\<close>
  "HistoryScreen_score analysis =
     or_num (or_num (Option.bind (Option.bind analysis an_insights) ins_overall_score)
               (Option.bind analysis an_overall_score)) (Some 0)"

definition score_cell :: "rat option \<Rightarrow> cell" where
  \<comment> \<open>\<open>{score}\<close>: nothing is shown for \<open>undefined\<close>\<close>
  "score_cell v = (case v of None \<Rightarrow> Str [] | Some x \<Rightarrow> Number x)"

definition empty_analysis :: VoiceAnalysis where
  "empty_analysis =
     \<lparr>an_insights = None, an_metrics = None, an_archetype = None, an_overall_score = None,
      an_clarity_score = None, an_confidence_score = None, an_tone = None,
      an_strengths = None, an_improvements = None, an_pitch_avg = None,
      an_pitch_range = None, an_speaking_pace = None, an_filler_words = None,
      an_filler_count = None, an_word_count = None\<rparr>"

definition sample_analysis :: VoiceAnalysis where
  "sample_analysis =
     empty_analysis\<lparr>an_overall_score := Some 82, an_pitch_avg := Some 150,
       an_filler_words := Some [(''um'', 3), (''like'', 5)], an_filler_count := Some 8\<rparr>"

section \<open>The recording timer\<close>

text \<open>
  The tests of the recording screen give the constant and the step of the timer:
  \<open>recordingTime += 1; if (recordingTime >= 120) shouldStop = true\<close>.
\<close>

definition MAX_RECORDING_DURATION :: nat where
  "MAX_RECORDING_DURATION = 120000"

record timer =
  recordingTime :: nat
  shouldStop :: bool

definition incrementTime :: "timer \<Rightarrow> timer" where
  "incrementTime t =
     (let t1 = t\<lparr>recordingTime := recordingTime t + 1\<rparr>
      in if 120 \<le> recordingTime t1 then t1\<lparr>shouldStop := True\<rparr> else t1)"

definition initial_timer :: timer where
  "initial_timer = \<lparr>recordingTime = 0, shouldStop = False\<rparr>"

section \<open>Absent values on the results screens\<close>

text \<open>
  \<open>ResultsScreen\<close> and \<open>getOverallScore\<close> keep an absent number absent: the screen shows
  \<open>N/A\<close>, the helper returns \<open>null\<close>, and the pitch section is hidden.
\<close>

lemma ResultsScreen_scores_cells:
  "ResultsScreen_scores analysis =
     [case overallScore analysis of None \<Rightarrow> Str ''N/A'' | Some x \<Rightarrow> Number x,
      case clarityScore analysis of None \<Rightarrow> Str ''N/A'' | Some x \<Rightarrow> Number x,
      case confidenceScore analysis of None \<Rightarrow> Str ''N/A'' | Some x \<Rightarrow> Number x,
      case speakingPace analysis of None \<Rightarrow> Str ''N/A'' | Some x \<Rightarrow> Number x]"
  by (simp add: ResultsScreen_scores_def or_NA_def)

lemma overallScore_None_iff:
  "overallScore analysis = None \<longleftrightarrow>
     Option.bind (Option.bind analysis an_insights) ins_overall_score = None
     \<and> Option.bind analysis an_overall_score = None"
  by (auto simp: overallScore_def nullish_def split: option.splits)

lemma ResultsScreen_empty:
  "ResultsScreen_scores (Some empty_analysis) = [Str ''N/A'', Str ''N/A'', Str ''N/A'', Str ''N/A'']"
  "ResultsScreen_scores None = [Str ''N/A'', Str ''N/A'', Str ''N/A'', Str ''N/A'']"
  "pitch_section (Some empty_analysis) = None"
  by (simp_all add: ResultsScreen_scores_def or_NA_def overallScore_def clarityScore_def
      confidenceScore_def speakingPace_def nullish_def empty_analysis_def pitch_section_def
      pitchAvg_def pitchRange_def or_str_def)

lemma getOverallScore_absent:
  "getOverallScore None = None" "getOverallScore (Some empty_analysis) = None"
  by (simp_all add: getOverallScore_def nullish_def empty_analysis_def)

text \<open>
  The other two screens do not: a score of \<open>0\<close> is replaced as well, and the history list
  shows \<open>0\<close> for an analysis without any score.
\<close>

lemma PersonalizedResults_zero_score:
  "score_cell (PersonalizedResults_score (empty_analysis\<lparr>an_overall_score := Some 0\<rparr>))
     = Number 75"
  by (simp add: PersonalizedResults_score_def or_num_def empty_analysis_def score_cell_def)

lemma HistoryScreen_shows_0:
  "score_cell (HistoryScreen_score (Some empty_analysis)) = Number 0"
  "score_cell (HistoryScreen_score None) = Number 0"
  by (simp_all add: HistoryScreen_score_def or_num_def empty_analysis_def score_cell_def)

text \<open>
  C1. An absent numeric field must be presented as unavailable, never as a default such
  as 0 or 75. \<open>PersonalizedResults\<close> breaks this: for an analysis that carries no overall
  score at all, the score circle shows the number 75.
\<close>

theorem PersonalizedResults_shows_75:
  "score_cell (PersonalizedResults_score empty_analysis) = Number 75"
  by (simp add: PersonalizedResults_score_def or_num_def empty_analysis_def score_cell_def)

section \<open>The step of the recording timer\<close>

text \<open>
  The step raises the stop flag from the 120th call on and keeps counting: after \<open>n\<close>
  calls the time is \<open>n\<close>. What the recording screen does with the flag is not part of
  the sources.
\<close>

lemma incrementTime_steps:
  "(incrementTime ^^ n) initial_timer = \<lparr>recordingTime = n, shouldStop = (120 \<le> n)\<rparr>"
proof (induction n)
  case 0
  show ?case by (simp add: initial_timer_def)
next
  case (Suc n)
  then show ?case by (auto simp: incrementTime_def Let_def)
qed

lemma incrementTime_examples:
  "(incrementTime ^^ 119) initial_timer = \<lparr>recordingTime = 119, shouldStop = False\<rparr>"
  "(incrementTime ^^ 120) initial_timer = \<lparr>recordingTime = 120, shouldStop = True\<rparr>"
  "recordingTime ((incrementTime ^^ 120) initial_timer) * 1000 = MAX_RECORDING_DURATION"
  by (simp_all add: incrementTime_steps MAX_RECORDING_DURATION_def)

section \<open>The filler-word bars\<close>

lemma filler_section_hidden: "fillerCount analysis \<le> 0 \<Longrightarrow> filler_section analysis = None"
  by (simp add: filler_section_def)

lemma sample_filler_section:
  "filler_section (Some sample_analysis) =
     Some [(''um'', Finite (75 / 2), 3), (''like'', Finite (125 / 2), 5)]"
  by (simp add: filler_section_def fillerCount_def fillerWords_def sample_analysis_def
      empty_analysis_def bar_width_def js_div_def js_times_def)

text \<open>
  C10. Whenever the filler-word section is rendered, \<open>fillerCount\<close> is strictly positive,
  and the width of every bar is the finite quotient \<open>count / fillerCount * 100\<close>: no bar
  is computed by a division by zero.
\<close>

theorem filler_bar_denominator_positive:
  assumes "filler_section analysis = Some rows"
  shows "0 < fillerCount analysis
     \<and> (\<forall>(word, width, count) \<in> set rows.
           width = Finite (count / fillerCount analysis * 100))"
proof -
  from assms have pos: "0 < fillerCount analysis"
    by (auto simp: filler_section_def split: if_splits)
  from assms pos have rows:
    "rows = map (\<lambda>(word, count). (word, bar_width count (fillerCount analysis), count))
              (fillerWords analysis)"
    by (simp add: filler_section_def)
  from pos have "bar_width c (fillerCount analysis) = Finite (c / fillerCount analysis * 100)"
    for c
    by (simp add: bar_width_def js_div_def js_times_def)
  with pos rows show ?thesis by auto
qed

theorem filler_bar_denominator_positive_witness:
  "filler_section (Some sample_analysis) =
     Some [(''um'', Finite (75 / 2), 3), (''like'', Finite (125 / 2), 5)]
   \<and> 0 < fillerCount (Some sample_analysis)
   \<and> Finite (75 / 2) = Finite (3 / fillerCount (Some sample_analysis) * 100)
   \<and> Finite (125 / 2) = Finite (5 / fillerCount (Some sample_analysis) * 100)"
  using filler_bar_denominator_positive [OF sample_filler_section] sample_filler_section
  by simp

section \<open>Filler-word detection\<close>
























section \<open>The speaking pace\<close>

text \<open>
  Rounding to the nearest double: the error of \<open>round_half_even\<close>, the exponent found
  by \<open>ilog2\<close>, and the relative error \<open>2^-53\<close> of \<open>float_round_pos\<close> in the normal range.
\<close>

lemma round_half_even_error: "\<bar>of_int (round_half_even y) - y\<bar> \<le> 1 / 2"
proof -
  define d where "d = y - of_int \<lfloor>y\<rfloor>"
  have d: "0 \<le> d" "d < 1" unfolding d_def by linarith+
  have y: "y = of_int \<lfloor>y\<rfloor> + d" by (simp add: d_def)
  consider "d < 1 / 2" | "1 / 2 < d" | "d = 1 / 2" by linarith
  then show ?thesis
  proof cases
    case 1
    then have "round_half_even y = \<lfloor>y\<rfloor>"
      by (simp add: round_half_even_def Let_def d_def)
    then show ?thesis using d 1 y by simp
  next
    case 2
    then have "round_half_even y = \<lfloor>y\<rfloor> + 1"
      by (simp add: round_half_even_def Let_def d_def)
    then show ?thesis using d 2 y by simp
  next
    case 3
    then have "round_half_even y = \<lfloor>y\<rfloor> \<or> round_half_even y = \<lfloor>y\<rfloor> + 1"
      by (simp add: round_half_even_def Let_def d_def)
    then show ?thesis using 3 y by auto
  qed
qed

lemma round_half_even_of_int [simp]: "round_half_even (of_int n) = n"
  by (simp add: round_half_even_def)

lemma quotient_of_pos:
  assumes "0 < x" "quotient_of x = (a, b)"
  shows "0 < a" "0 < b" "x = of_int a / of_int b"
proof -
  from assms(2) show b: "0 < b" by (rule quotient_of_denom_pos)
  from assms(2) show x: "x = of_int a / of_int b" by (rule quotient_of_div)
  from assms(1) x b show "0 < a" by (simp add: zero_less_divide_iff)
qed

lemma bitlen_powi_bounds:
  assumes "0 < a"
  shows "(2::rat) powi (bitlen a - 1) \<le> of_int a" "of_int a < (2::rat) powi (bitlen a)"
proof -
  from bitlen_bounds [OF assms] have lo: "2 ^ nat (bitlen a - 1) \<le> a" and hi: "a < 2 ^ nat (bitlen a)"
    by simp_all
  from assms have ge: "1 \<le> bitlen a" by (simp add: bitlen_alt_def)
  have "(2::rat) powi (bitlen a - 1) = 2 ^ nat (bitlen a - 1)"
    using ge by (simp add: power_int_def)
  also have "\<dots> = of_int (2 ^ nat (bitlen a - 1))" by simp
  also have "\<dots> \<le> of_int a" using lo by (simp only: of_int_le_iff)
  finally show "(2::rat) powi (bitlen a - 1) \<le> of_int a" .
  have "(of_int a :: rat) < of_int (2 ^ nat (bitlen a))" using hi by (simp only: of_int_less_iff)
  also have "\<dots> = 2 ^ nat (bitlen a)" by simp
  also have "\<dots> = 2 powi (bitlen a)" using ge by (simp add: power_int_def)
  finally show "of_int a < (2::rat) powi (bitlen a)" .
qed

lemma ilog2_bounds:
  assumes "0 < x"
  shows "2 powi (ilog2 x) \<le> x" "x < 2 powi (ilog2 x + 1)"
proof -
  obtain a b where q: "quotient_of x = (a, b)" by (cases "quotient_of x")
  from quotient_of_pos [OF assms q] have a: "0 < a" and b: "0 < b" and x: "x = of_int a / of_int b"
    by simp_all
  define d where "d = bitlen a - bitlen b"
  have il: "ilog2 x = (if 2 powi d \<le> x then d else d - 1)"
    by (simp add: ilog2_def q d_def Let_def)
  note A = bitlen_powi_bounds [OF a] and B = bitlen_powi_bounds [OF b]
  have bpos: "(0::rat) < of_int b" using b by simp
  have lower: "2 powi (d - 1) \<le> x"
  proof -
    have "(2::rat) powi (d - 1) * of_int b \<le> 2 powi (d - 1) * 2 powi (bitlen b)"
      using B(2) by (intro mult_left_mono) simp_all
    also have "\<dots> = 2 powi (bitlen a - 1)"
      by (simp add: d_def power_int_add [symmetric])
    also have "\<dots> \<le> of_int a" by (rule A(1))
    finally show ?thesis using bpos by (simp add: x pos_le_divide_eq)
  qed
  have upper: "x < 2 powi (d + 1)"
  proof -
    have "of_int a < (2::rat) powi (bitlen a)" by (rule A(2))
    also have "\<dots> = 2 powi (d + 1) * 2 powi (bitlen b - 1)"
      by (simp add: d_def power_int_add [symmetric])
    also have "\<dots> \<le> 2 powi (d + 1) * of_int b"
      using B(1) by (intro mult_left_mono) simp_all
    finally show ?thesis using bpos by (simp add: x pos_divide_less_eq)
  qed
  show "2 powi (ilog2 x) \<le> x" using lower by (simp add: il)
  show "x < 2 powi (ilog2 x + 1)" using upper by (auto simp: il not_le)
qed

lemma ilog2_unique:
  assumes "0 < x" "2 powi k \<le> x" "x < 2 powi (k + 1)"
  shows "ilog2 x = k"
proof -
  from ilog2_bounds [OF assms(1)] have 1: "2 powi (ilog2 x) \<le> x" and 2: "x < 2 powi (ilog2 x + 1)" .
  have "ilog2 x < k + 1"
  proof (rule ccontr)
    assume "\<not> ilog2 x < k + 1"
    then have "(2::rat) powi (k + 1) \<le> 2 powi (ilog2 x)"
      by (intro power_int_increasing) simp_all
    with 1 assms(3) show False by simp
  qed
  moreover have "k < ilog2 x + 1"
  proof (rule ccontr)
    assume "\<not> k < ilog2 x + 1"
    then have "(2::rat) powi (ilog2 x + 1) \<le> 2 powi k"
      by (intro power_int_increasing) simp_all
    with 2 assms(2) show False by simp
  qed
  ultimately show ?thesis by simp
qed


lemma ilog2_ge:
  assumes "0 < x" "2 powi k \<le> x"
  shows "k \<le> ilog2 x"
proof (rule ccontr)
  assume "\<not> k \<le> ilog2 x"
  then have "(2::rat) powi (ilog2 x + 1) \<le> 2 powi k"
    by (intro power_int_increasing) simp_all
  with ilog2_bounds(2) [OF assms(1)] assms(2) show False by simp
qed

lemma float_round_pos_normal:
  assumes "2 powi (- 1022) \<le> x"
  shows "float_round_pos x =
           of_int (round_half_even (x / 2 powi (ilog2 x - 52))) * 2 powi (ilog2 x - 52)"
proof -
  have "(0::rat) < 2 powi (- 1022)" by simp
  with assms have pos: "0 < x" by linarith
  from ilog2_ge [OF pos assms] have "max (ilog2 x - 52) (- 1074) = ilog2 x - 52" by simp
  then show ?thesis by (simp add: float_round_pos_def Let_def)
qed

lemma float_round_pos_error:
  assumes "2 powi (- 1022) \<le> x"
  shows "\<bar>float_round_pos x - x\<bar> \<le> x / 2 ^ 53"
proof -
  have "(0::rat) < 2 powi (- 1022)" by simp
  with assms have pos: "0 < x" by linarith
  define e where "e = ilog2 x - 52"
  define y where "y = x / 2 powi e"
  have epos: "(0::rat) < 2 powi e" by simp
  have x: "x = y * 2 powi e" by (simp add: y_def)
  have fl: "float_round_pos x = of_int (round_half_even y) * 2 powi e"
    unfolding y_def e_def by (rule float_round_pos_normal [OF assms])
  have "\<bar>float_round_pos x - x\<bar> = \<bar>of_int (round_half_even y) - y\<bar> * 2 powi e"
    unfolding fl by (subst x) (simp add: abs_mult left_diff_distrib [symmetric])
  also have "\<dots> \<le> 1 / 2 * 2 powi e"
    by (intro mult_right_mono round_half_even_error) simp
  also have "\<dots> = 2 powi (ilog2 x) / 2 ^ 53"
  proof -
    have "(2::rat) powi (e + 52) = 2 powi e * 2 powi 52"
      by (rule power_int_add) simp
    moreover have "e + 52 = ilog2 x" by (simp add: e_def)
    ultimately have "(2::rat) powi (ilog2 x) = 2 powi e * 2 ^ 53 / 2" by simp
    then show ?thesis by simp
  qed
  also have "\<dots> \<le> x / 2 ^ 53"
    using ilog2_bounds(1) [OF pos] by (simp add: divide_right_mono)
  finally show ?thesis .
qed


lemma float_round_Some:
  assumes "2 powi (- 1022) \<le> x" "x < 2 ^ 1023"
  shows "float_round x = Some (float_round_pos x)"
proof -
  have "(0::rat) < 2 powi (- 1022)" by simp
  with assms have pos: "0 < x" by linarith
  have "x / 2 ^ 53 \<le> x" using pos by (simp add: divide_le_eq)
  with float_round_pos_error [OF assms(1)]
  have "\<bar>float_round_pos x - x\<bar> \<le> x" by linarith
  with assms(2) pos have "\<bar>float_round_pos x\<bar> < 2 ^ 1024" by (simp add: abs_if split: if_splits)
  with pos show ?thesis by (simp add: float_round_def)
qed

lemma speaking_pace_floor:
  fixes wc :: nat and rt :: int
  assumes rt: "0 < rt" "rt \<le> 2 ^ 64" and wc: "0 < wc" "180 * wc < 2 ^ 53"
  shows "\<exists>p. speaking_pace wc rt = Inr p
           \<and> \<lfloor>of_nat wc * 60 / of_int rt :: rat\<rfloor> - 1 \<le> p
           \<and> p \<le> \<lfloor>of_nat wc * 60 / of_int rt :: rat\<rfloor>"
proof -
  define u :: rat where "u = 1 / 2 ^ 53"
  define x :: rat where "x = of_nat wc / of_int rt"
  define E :: rat where "E = of_nat wc * 60 / of_int rt"
  have upos: "0 < u" "u < 1" by (simp_all add: u_def)
  have rtpos: "(0::rat) < of_int rt" "(1::rat) \<le> of_int rt" using rt by simp_all
  have wcpos: "(1::rat) \<le> of_nat wc" using wc by simp
  have xpos: "0 < x" using rtpos wcpos by (simp add: x_def)
  have x_lo: "1 / of_int rt \<le> x" using rtpos wcpos by (simp add: x_def divide_right_mono)
  have x_hi: "x \<le> of_nat wc" using rtpos wcpos by (simp add: x_def divide_le_eq mult_le_cancel_left1)
  have wc_hi: "(of_nat wc :: rat) * 180 < 2 ^ 53"
  proof -
    from wc(2) have "(of_nat (180 * wc) :: rat) < of_nat (2 ^ 53)" by (simp only: of_nat_less_iff)
    then show ?thesis by (simp add: mult.commute)
  qed
  have small: "(2::rat) powi (- 1022) \<le> 1 / of_int rt"
  proof -
    have "(of_int rt :: rat) \<le> of_int (2 ^ 64)" using rt(2) by (simp only: of_int_le_iff)
    then have "(of_int rt :: rat) \<le> 2 ^ 64" by simp
    then have "1 / (2 ^ 64 :: rat) \<le> 1 / of_int rt" using rtpos by (simp add: divide_left_mono)
    moreover have "(2::rat) powi (- 1022) \<le> 1 / 2 ^ 64" by (simp add: power_int_minus divide_simps)
    ultimately show ?thesis by linarith
  qed
  have x_norm: "2 powi (- 1022) \<le> x" using small x_lo by linarith
  define q where "q = float_round_pos x"
  have qerr: "\<bar>q - x\<bar> \<le> x * u"
    using float_round_pos_error [OF x_norm] by (simp add: q_def u_def)
  have q_lo: "x * (1 - u) \<le> q" and q_hi: "q \<le> x * (1 + u)"
    using qerr by (simp_all add: algebra_simps abs_le_iff)
  have x_big: "x < 2 ^ 1023"
  proof -
    have "x < 2 ^ 53" using x_hi wc_hi wcpos by linarith
    also have "(2::rat) ^ 53 \<le> 2 ^ 1023" by (rule power_increasing) simp_all
    finally show ?thesis .
  qed
  have frx: "float_round x = Some q" unfolding q_def by (rule float_round_Some [OF x_norm x_big])
  have u_half: "u \<le> 1 / 2" by (simp add: u_def)
  have q_ge: "x / 2 \<le> q"
  proof -
    have "x * (1 / 2) \<le> x * (1 - u)" using xpos u_half by (intro mult_left_mono) simp_all
    with q_lo show ?thesis by simp
  qed
  have q_le: "q \<le> 2 * x"
  proof -
    have "x * (1 + u) \<le> x * 2" using xpos upos by (intro mult_left_mono) simp_all
    with q_hi show ?thesis by simp
  qed
  have qpos: "0 < q" using q_ge xpos by linarith
  have q60_norm: "2 powi (- 1022) \<le> q * 60" using q_ge x_norm xpos by linarith
  have q60_big: "q * 60 < 2 ^ 1023"
  proof -
    have "q * 60 < 120 * 2 ^ 53" using q_le x_hi wc_hi wcpos by linarith
    also have "(120::rat) * 2 ^ 53 \<le> 2 ^ 7 * 2 ^ 53" by simp
    also have "\<dots> = (2::rat) ^ 60" by (simp add: power_add [symmetric])
    also have "\<dots> \<le> 2 ^ 1023" by (rule power_increasing) simp_all
    finally show ?thesis .
  qed
  define p where "p = float_round_pos (q * 60)"
  have perr: "\<bar>p - q * 60\<bar> \<le> q * 60 * u"
    using float_round_pos_error [OF q60_norm] by (simp add: p_def u_def)
  have p_lo: "q * 60 * (1 - u) \<le> p" and p_hi: "p \<le> q * 60 * (1 + u)"
    using perr by (simp_all add: algebra_simps abs_le_iff)
  have frp: "float_round (q * 60) = Some p"
    unfolding p_def by (rule float_round_Some [OF q60_norm q60_big])
  have sp: "speaking_pace wc rt = Inr (py_int p)"
    using rt(1) frx frp by (simp add: speaking_pace_def x_def)
  have E: "E = x * 60" by (simp add: E_def x_def)
  have Epos: "0 < E" using xpos by (simp add: E)
  have E_hi: "E * 3 * u < 1 / of_int rt"
  proof -
    have "E * 3 * u = (of_nat wc * 180 * u) / of_int rt" by (simp add: E_def)
    also have "\<dots> < 1 / of_int rt"
    proof -
      have "of_nat wc * 180 * u < 1" using wc_hi by (simp add: u_def)
      then show ?thesis using rtpos by (simp add: divide_strict_right_mono)
    qed
    finally show ?thesis .
  qed
  have E_small: "E * 3 * u < 1"
  proof -
    have "1 / of_int rt \<le> (1::rat)" using rtpos by simp
    with E_hi show ?thesis by linarith
  qed
  have upper: "p < E + 1 / of_int rt"
  proof -
    have "p \<le> q * 60 * (1 + u)" by (rule p_hi)
    also have "\<dots> \<le> (x * (1 + u)) * 60 * (1 + u)"
      using q_hi upos by (intro mult_right_mono) simp_all
    also have "\<dots> = E + E * (2 * u + u * u)" by (simp add: E algebra_simps)
    also have "\<dots> \<le> E + E * (3 * u)"
    proof -
      have "u * u \<le> u * 1" using upos by (intro mult_left_mono) simp_all
      then have "2 * u + u * u \<le> 3 * u" by simp
      then have "E * (2 * u + u * u) \<le> E * (3 * u)" using Epos by (intro mult_left_mono) simp_all
      then show ?thesis by simp
    qed
    also have "\<dots> < E + 1 / of_int rt" using E_hi by (simp add: mult.assoc)
    finally show ?thesis .
  qed
  have lower: "E - 1 \<le> p"
  proof -
    have "E - E * 3 * u \<le> E * (1 - u) * (1 - u)"
    proof -
      have "0 \<le> E * u + E * u * u" using Epos upos by simp
      then show ?thesis by (simp add: algebra_simps)
    qed
    also have "\<dots> = (x * (1 - u)) * 60 * (1 - u)" by (simp add: E algebra_simps)
    also have "\<dots> \<le> q * 60 * (1 - u)"
      using q_lo upos by (intro mult_right_mono) simp_all
    also have "\<dots> \<le> p" by (rule p_lo)
    finally show ?thesis using E_small by linarith
  qed
  define k where "k = \<lfloor>E\<rfloor>"
  have Eint: "E = of_int (int wc * 60) / of_int rt" by (simp add: E_def)
  have k_hi: "E + 1 / of_int rt \<le> of_int k + 1"
  proof -
    have "E < of_int k + 1" unfolding k_def by linarith
    then have "of_int (int wc * 60) < (of_int k + 1) * (of_int rt :: rat)"
      using rtpos unfolding Eint by (simp add: pos_divide_less_eq)
    then have "(of_int (int wc * 60) :: rat) < of_int ((k + 1) * rt)" by simp
    then have "int wc * 60 < (k + 1) * rt" by (simp only: of_int_less_iff)
    then have "int wc * 60 + 1 \<le> (k + 1) * rt" by simp
    then have "(of_int (int wc * 60 + 1) :: rat) \<le> of_int ((k + 1) * rt)"
      by (simp only: of_int_le_iff)
    then have "(of_int (int wc * 60) + 1) / of_int rt \<le> (of_int k + 1 :: rat)"
      using rtpos by (simp add: pos_divide_le_eq)
    then show ?thesis unfolding Eint by (simp add: add_divide_distrib)
  qed
  have k_lo: "of_int k \<le> E" unfolding k_def by simp
  have "p < of_int (k + 1)" using upper k_hi by simp
  then have "\<lfloor>p\<rfloor> < k + 1" by (simp only: floor_less_iff)
  then have fl_hi: "\<lfloor>p\<rfloor> \<le> k" by simp
  have "of_int (k - 1) \<le> p" using lower k_lo by simp
  then have fl_lo: "k - 1 \<le> \<lfloor>p\<rfloor>" by (simp only: le_floor_iff)
  have "0 \<le> p" using p_lo qpos upos
    by (meson less_eq_rat_def mult_nonneg_nonneg order_trans diff_ge_0_iff_ge zero_le_numeral)
  then have "py_int p = \<lfloor>p\<rfloor>" by (simp add: py_int_def)
  with sp fl_lo fl_hi show ?thesis unfolding k_def E_def by simp
qed


lemma round_half_even_nearest:
  assumes "\<bar>of_int n - y\<bar> < 1 / 2"
  shows "round_half_even y = n"
proof -
  have "\<bar>(of_int (round_half_even y) :: rat) - of_int n\<bar> < 1"
    using round_half_even_error [of y] assms by linarith
  then have "\<bar>(of_int (round_half_even y - n) :: rat)\<bar> < of_int 1" by simp
  then have "\<bar>round_half_even y - n\<bar> < 1"
    by (simp only: of_int_abs [symmetric] of_int_less_iff)
  then show ?thesis by simp
qed

lemma float_round_at:
  assumes "2 powi k \<le> x" "x < 2 powi (k + 1)" "- 1022 \<le> k" "k < 1023"
    and "\<bar>of_int n - x / 2 powi (k - 52)\<bar> < 1 / 2"
  shows "float_round x = Some (of_int n * 2 powi (k - 52))"
proof -
  have "(0::rat) < 2 powi k" by simp
  with assms(1) have pos: "0 < x" by linarith
  have k: "ilog2 x = k" by (rule ilog2_unique [OF pos assms(1,2)])
  have "(2::rat) powi (- 1022) \<le> 2 powi k" using assms(3) by (intro power_int_increasing) simp_all
  with assms(1) have norm: "2 powi (- 1022) \<le> x" by linarith
  have "(2::rat) powi (k + 1) \<le> 2 powi 1023" using assms(4) by (intro power_int_increasing) simp_all
  with assms(2) have big: "x < 2 ^ 1023" by simp
  show ?thesis
    using float_round_Some [OF norm big] float_round_pos_normal [OF norm]
      round_half_even_nearest [OF assms(5)]
    by (simp add: k)
qed

lemma speaking_pace_eval:
  assumes "rt \<noteq> 0" "float_round (of_nat wc / of_int rt) = Some q"
    and "float_round (q * 60) = Some p"
  shows "speaking_pace wc rt = Inr (py_int p)"
  using assms by (simp add: speaking_pace_def)

lemma pace_5_7: "speaking_pace 5 7 = Inr 42"
proof -
  define Q :: rat where "Q = 6433713753386423 / 9007199254740992"
  define P :: rat where "P = 1507901660949943 / 35184372088832"
  have q: "float_round (of_nat 5 / of_int 7) = Some Q"
    using float_round_at [of "- 1" "5 / 7" 6433713753386423]
    by (simp add: Q_def power_int_minus)
  have p: "float_round (Q * 60) = Some P"
    using float_round_at [of 5 "Q * 60" 6031606643799772]
    by (simp add: Q_def P_def power_int_minus)
  have "py_int P = 42" by (simp add: py_int_def P_def floor_eq_iff)
  with speaking_pace_eval [OF _ q p] show ?thesis by simp
qed

lemma pace_150_60: "speaking_pace 150 60 = Inr 150"
proof -
  have q: "float_round (of_nat 150 / of_int 60) = Some (5 / 2)"
    using float_round_at [of 1 "5 / 2" 5629499534213120]
    by (simp add: power_int_minus)
  have p: "float_round (5 / 2 * 60) = Some 150"
    using float_round_at [of 7 150 5277655813324800]
    by (simp add: power_int_minus)
  have "py_int 150 = 150" by (simp add: py_int_def)
  with speaking_pace_eval [OF _ q p] show ?thesis by simp
qed

lemma pace_123_60: "speaking_pace 123 60 = Inr 122"
proof -
  define Q :: rat where "Q = 2308094809027379 / 1125899906842624"
  define P :: rat where "P = 8655355533852671 / 70368744177664"
  have q: "float_round (of_nat 123 / of_int 60) = Some Q"
    using float_round_at [of 1 "123 / 60" 4616189618054758]
    by (simp add: Q_def power_int_minus)
  have p: "float_round (Q * 60) = Some P"
    using float_round_at [of 6 "Q * 60" 8655355533852671]
    by (simp add: Q_def P_def power_int_minus)
  have "py_int P = 122" by (simp add: py_int_def P_def floor_eq_iff)
  with speaking_pace_eval [OF _ q p] show ?thesis by simp
qed

lemma pace_3_45: "speaking_pace 3 45 = Inr 4"
proof -
  define Q :: rat where "Q = 4803839602528529 / 72057594037927936"
  have q: "float_round (of_nat 3 / of_int 45) = Some Q"
    using float_round_at [of "- 4" "3 / 45" 4803839602528529]
    by (simp add: Q_def power_int_minus)
  have p: "float_round (Q * 60) = Some 4"
    using float_round_at [of 1 "Q * 60" 9007199254740992]
    by (simp add: Q_def power_int_minus)
  have "py_int 4 = 4" by (simp add: py_int_def)
  with speaking_pace_eval [OF _ q p] show ?thesis by simp
qed

text \<open>
  The word count: the tokens of \<open>text.split()\<close> are non-empty, free of separators, and
  together they are the transcript without its separators.
\<close>

lemma split_acc_tokens:
  assumes "\<forall>c \<in> set cur. \<not> py_isspace c" "w \<in> set (split_acc cur s)"
  shows "w \<noteq> [] \<and> (\<forall>c \<in> set w. \<not> py_isspace c)"
  using assms
proof (induction s arbitrary: cur)
  case Nil
  then show ?case by (auto split: if_splits)
next
  case (Cons c cs)
  show ?case
  proof (cases "py_isspace c")
    case True
    with Cons.prems have "w = cur \<and> cur \<noteq> [] \<or> w \<in> set (split_acc [] cs)"
      by (auto split: if_splits)
    then show ?thesis
    proof
      assume "w = cur \<and> cur \<noteq> []"
      with Cons.prems(1) show ?thesis by simp
    next
      assume "w \<in> set (split_acc [] cs)"
      then show ?thesis by (intro Cons.IH [of "[]"]) simp_all
    qed
  next
    case False
    with Cons.prems have "w \<in> set (split_acc (cur @ [c]) cs)" by simp
    moreover from False Cons.prems(1) have "\<forall>x \<in> set (cur @ [c]). \<not> py_isspace x" by simp
    ultimately show ?thesis by (intro Cons.IH [of "cur @ [c]"]) simp_all
  qed
qed

lemma split_acc_concat:
  "concat (split_acc cur s) = cur @ filter (\<lambda>c. \<not> py_isspace c) s"
  by (induction s arbitrary: cur) auto

lemma py_split_tokens:
  "w \<in> set (py_split s) \<Longrightarrow> w \<noteq> [] \<and> (\<forall>c \<in> set w. \<not> py_isspace c)"
  unfolding py_split_def by (rule split_acc_tokens [of "[]"]) simp_all

lemma py_split_concat: "concat (py_split s) = filter (\<lambda>c. \<not> py_isspace c) s"
  by (simp add: py_split_def split_acc_concat)

lemma pace_0: "rt \<noteq> 0 \<Longrightarrow> speaking_pace 0 rt = Inr 0"
  by (simp add: speaking_pace_def float_round_def py_int_def)

lemma words_example: "length (py_split ''Um, hello world'') = 3"
  by code_simp

lemma five_words: "length (py_split ''one two three four five'') = 5"
  by code_simp

lemma rounded_pace_5_7: "rounded_pace 5 7 = 43"
  by (simp add: rounded_pace_def round_def floor_eq_iff)

lemma rounded_pace_123_60: "rounded_pace 123 60 = 123"
  by (simp add: rounded_pace_def round_def floor_eq_iff)

lemma floor_le_rounded_pace:
  "\<lfloor>of_nat wc * 60 / of_int rt :: rat\<rfloor> \<le> rounded_pace wc rt"
proof -
  have "\<lfloor>of_nat wc * 60 / of_int rt :: rat\<rfloor> \<le> \<lfloor>of_nat wc * 60 / of_int rt + 1 / 2 :: rat\<rfloor>"
    by (rule floor_mono) simp
  then show ?thesis by (simp add: rounded_pace_def round_def)
qed

text \<open>
  C4. The pace is not the rounded quotient: \<open>int\<close> truncates. For every transcript of
  fewer than \<open>2^53 / 180\<close> words and every duration from 1 to \<open>2^64\<close> seconds the function
  returns a pace, which is the integer part of \<open>word_count * 60 / duration\<close> or, through
  the rounding of the two floating-point operations, one less; it never exceeds the
  rounded quotient. 150 words in 60 seconds give 150.
\<close>

theorem speaking_pace_truncates:
  assumes "0 < duration" "duration \<le> 2 ^ 64" "180 * length (py_split text) < 2 ^ 53"
  shows "(\<exists>pace. speaking_pace (length (py_split text)) duration = Inr pace
           \<and> \<lfloor>of_nat (length (py_split text)) * 60 / of_int duration :: rat\<rfloor> - 1 \<le> pace
           \<and> pace \<le> \<lfloor>of_nat (length (py_split text)) * 60 / of_int duration :: rat\<rfloor>
           \<and> pace \<le> rounded_pace (length (py_split text)) duration)
         \<and> speaking_pace 150 60 = Inr 150"
proof -
  let ?wc = "length (py_split text)"
  have "\<exists>pace. speaking_pace ?wc duration = Inr pace
           \<and> \<lfloor>of_nat ?wc * 60 / of_int duration :: rat\<rfloor> - 1 \<le> pace
           \<and> pace \<le> \<lfloor>of_nat ?wc * 60 / of_int duration :: rat\<rfloor>"
  proof (cases "?wc = 0")
    case True
    with assms(1) show ?thesis by (simp add: pace_0)
  next
    case False
    then have "0 < ?wc" by simp
    then show ?thesis using assms by (intro speaking_pace_floor)
  qed
  then have "\<exists>pace. speaking_pace ?wc duration = Inr pace
           \<and> \<lfloor>of_nat ?wc * 60 / of_int duration :: rat\<rfloor> - 1 \<le> pace
           \<and> pace \<le> \<lfloor>of_nat ?wc * 60 / of_int duration :: rat\<rfloor>
           \<and> pace \<le> rounded_pace ?wc duration"
    using floor_le_rounded_pace [of ?wc duration] by force
  then show ?thesis using pace_150_60 by blast
qed

theorem speaking_pace_truncates_witness:
  "(0::int) < 7 \<and> (7::int) \<le> 2 ^ 64
   \<and> 180 * length (py_split ''one two three four five'') < 2 ^ 53
   \<and> (\<exists>pace. speaking_pace (length (py_split ''one two three four five'')) 7 = Inr pace
          \<and> 41 \<le> pace \<and> pace \<le> 42)"
proof -
  have h: "(0::int) < 7" "(7::int) \<le> 2 ^ 64"
    "180 * length (py_split ''one two three four five'') < 2 ^ 53"
    by (simp_all add: five_words)
  have fl: "\<lfloor>of_nat (length (py_split ''one two three four five'')) * 60 / of_int 7 :: rat\<rfloor> = 42"
    by (simp add: five_words floor_eq_iff)
  from speaking_pace_truncates [OF h] obtain pace
    where "speaking_pace (length (py_split ''one two three four five'')) 7 = Inr pace"
      and "\<lfloor>of_nat (length (py_split ''one two three four five'')) * 60 / of_int 7 :: rat\<rfloor> - 1 \<le> pace"
      and "pace \<le> \<lfloor>of_nat (length (py_split ''one two three four five'')) * 60 / of_int 7 :: rat\<rfloor>"
    by blast
  then show ?thesis using h unfolding fl by auto
qed

theorem pace_is_not_rounded:
  "speaking_pace (length (py_split ''one two three four five'')) 7 = Inr 42
   \<and> rounded_pace (length (py_split ''one two three four five'')) 7 = 43"
  by (simp add: five_words pace_5_7 rounded_pace_5_7)

section \<open>The merge in \<open>analyze_transcription\<close>\<close>

lemma analyze_transcription_result:
  assumes "analyze_transcription gpt text rt = Inr analysis"
  shows "\<exists>pace reply. speaking_pace (length (py_split text)) rt = Inr pace
           \<and> gpt text pace = Inr reply
           \<and> analysis = reply ++ rule_based_fields text pace"
  using assms
  by (auto simp: analyze_transcription_def rule_based_fields_def Let_def split: sum.splits)

lemma rule_based_fields_dom:
  "dom (rule_based_fields text pace) = {''speaking_pace'', ''filler_words'', ''word_count''}"
  by (auto simp: rule_based_fields_def split: if_splits)

lemma merged_field:
  "(reply ++ rule_based_fields text pace) k =
     (if k \<in> {''speaking_pace'', ''filler_words'', ''word_count''}
      then rule_based_fields text pace k else reply k)"
  using rule_based_fields_dom [of "text" pace]
  by (auto simp: map_add_def split: option.splits)

text \<open>
  C2. The reply of the model is not merged over rule-based scores: whenever
  \<open>analyze_transcription\<close> returns, the three fields it computes itself (\<open>speaking_pace\<close>,
  \<open>filler_words\<close>, \<open>word_count\<close>) are in the result as computed, whatever the model
  replied, and every other field of the result, the three scores included, is the field
  of the model's reply.
\<close>

theorem merge_keeps_computed_fields:
  assumes "analyze_transcription gpt text rt = Inr analysis"
  shows "\<exists>pace reply. speaking_pace (length (py_split text)) rt = Inr pace
           \<and> gpt text pace = Inr reply
           \<and> (\<forall>k. analysis k =
                 (if k \<in> {''speaking_pace'', ''filler_words'', ''word_count''}
                  then rule_based_fields text pace k else reply k))"
proof -
  from analyze_transcription_result [OF assms] obtain pace reply
    where "speaking_pace (length (py_split text)) rt = Inr pace"
      and "gpt text pace = Inr reply"
      and "analysis = reply ++ rule_based_fields text pace" by blast
  then show ?thesis using merged_field by blast
qed

lemma sample_analysis_result:
  "analyze_transcription (gpt_reply r) ''Um, hello world'' 45
     = Inr (r ++ rule_based_fields ''Um, hello world'' 4)"
  by (simp add: analyze_transcription_def words_example pace_3_45 gpt_reply_def
      rule_based_fields_def)

theorem merge_changes_overall_score:
  "rule_based_fields ''Um, hello world'' 4 ''overall_score'' = None
   \<and> field_of (analyze_transcription (gpt_reply sample_reply) ''Um, hello world'' 45)
        ''overall_score'' = Some (JNum 82)"
  by (simp add: sample_analysis_result field_of_def merged_field sample_reply_def)
    (simp add: rule_based_fields_def)

theorem merge_keeps_computed_fields_witness:
  "analyze_transcription (gpt_reply sample_reply) ''Um, hello world'' 45
     = Inr (sample_reply ++ rule_based_fields ''Um, hello world'' 4)
   \<and> (\<exists>pace reply. speaking_pace (length (py_split ''Um, hello world'')) 45 = Inr pace
           \<and> gpt_reply sample_reply ''Um, hello world'' pace = Inr reply
           \<and> (\<forall>k. (sample_reply ++ rule_based_fields ''Um, hello world'' 4) k =
                 (if k \<in> {''speaking_pace'', ''filler_words'', ''word_count''}
                  then rule_based_fields ''Um, hello world'' pace k else reply k)))"
  using merge_keeps_computed_fields [OF sample_analysis_result [of sample_reply]]
    sample_analysis_result [of sample_reply]
  by simp



lemma no_scores_on_zero_duration:
  "analyze_transcription gpt [] 0 = Inl (Exception ''ZeroDivisionError'' ''division by zero'')"
  by (simp add: analyze_transcription_def speaking_pace_def)


section \<open>Failures in \<open>analyze_voice\<close>\<close>

lemma sample_authorize: "authorize sample_services sample_request = Inr ''user-uuid''"
  by (simp add: authorize_def get_current_user_def sample_services_def sample_request_def)

lemma processing_error_handled:
  assumes "authorize sv req = Inr user"
    and "process_recording sv req user (fresh_uuid sv) st = (Inl (Exception cls msg), st1)"
    and "mark_failed sv = None"
  shows "analyze_voice sv req st =
     (Inl (HTTPException 500 msg),
      st1\<lparr>logged := logged st1 @ [(ERROR, ''Error: '' @ msg)],
          assessments :=
            update_one (fresh_uuid sv) (\<lambda>d. d\<lparr>doc_processed := True, doc_error := Some msg\<rparr>)
              (assessments st1)\<rparr>)"
  using assms by (simp add: analyze_voice_def handle_exception_def Let_def)

lemma gpt_failure_run:
  assumes "authorize sv req = Inr user" "insert_assessment sv = None" "mark_failed sv = None"
    and "b64decode sv = Inr audio_bytes"
    and "whisper sv audio_bytes = Inr transcription"
    and "speaking_pace (length (py_split transcription)) (recording_time req) = Inr pace"
    and "gpt_analysis sv transcription pace = Inl (Exception cls msg)"
  shows "analyze_voice sv req st =
     (Inl (HTTPException 500 msg),
      st\<lparr>assessments := (assessments st)(fresh_uuid sv \<mapsto>
           \<lparr>doc_user_id = user, doc_audio_data = audio_base64 req, doc_processed = True,
            doc_transcription = None, doc_analysis = None, doc_error = Some msg\<rparr>),
         logged := logged st @ [(ERROR, ''Error: '' @ msg)]\<rparr>)"
proof -
  from assms(6,7)
  have "analyze_transcription (gpt_analysis sv) transcription (recording_time req)
      = Inl (Exception cls msg)"
    by (simp add: analyze_transcription_def)
  with assms(2,4,5)
  have "process_recording sv req user (fresh_uuid sv) st =
     (Inl (Exception cls msg),
      st\<lparr>assessments := (assessments st)(fresh_uuid sv \<mapsto>
           \<lparr>doc_user_id = user, doc_audio_data = audio_base64 req, doc_processed = False,
            doc_transcription = None, doc_analysis = None, doc_error = None\<rparr>)\<rparr>)"
    by (simp add: process_recording_def)
  from processing_error_handled [OF assms(1) this assms(3)]
  show ?thesis by (simp add: update_one_def)
qed

lemma timeout_run:
  "analyze_voice timeout_services sample_request empty_state =
     (Inl (HTTPException 500 ''Request timed out.''),
      \<lparr>assessments = [''uuid'' \<mapsto>
           \<lparr>doc_user_id = ''user-uuid'', doc_audio_data = ''AAAA'', doc_processed = True,
            doc_transcription = None, doc_analysis = None,
            doc_error = Some ''Request timed out.''\<rparr>],
       training_questions = Map.empty,
       logged = [(ERROR, ''Error: Request timed out.'')]\<rparr>)"
proof -
  have a: "authorize timeout_services sample_request = Inr ''user-uuid''"
    by (simp add: authorize_def get_current_user_def timeout_services_def sample_services_def
        sample_request_def)
  have "analyze_voice timeout_services sample_request empty_state =
     (Inl (HTTPException 500 ''Request timed out.''),
      empty_state\<lparr>assessments := (assessments empty_state)(fresh_uuid timeout_services \<mapsto>
           \<lparr>doc_user_id = ''user-uuid'', doc_audio_data = audio_base64 sample_request,
            doc_processed = True, doc_transcription = None, doc_analysis = None,
            doc_error = Some ''Request timed out.''\<rparr>),
         logged := logged empty_state @ [(ERROR, ''Error: '' @ ''Request timed out.'')]\<rparr>)"
    by (rule gpt_failure_run [OF a, where audio_bytes = "[CHR 0x00, CHR 0x00, CHR 0x00]"
          and transcription = "''Um, hello world''" and pace = 4
          and cls = "''APITimeoutError''"])
      (simp_all add: timeout_services_def sample_services_def sample_request_def
        words_example pace_3_45 gpt_timeout_def)
  then show ?thesis
    by (simp add: timeout_services_def sample_services_def sample_request_def empty_state_def)
qed

text \<open>
  C3. A failure of the language-model step must not fail the run: the caller should get
  the rule-based result, and the failure should be logged as a warning. The endpoint
  breaks this. For a request that is authenticated, decoded and transcribed, and whose
  chat completion times out, it raises \<open>HTTPException\<close> with status 500, logs the failure
  at level \<open>ERROR\<close>, and stores the error on the assessment, with no analysis.
\<close>

theorem timeout_fails_the_run:
  "fst (analyze_voice timeout_services sample_request empty_state)
     = Inl (HTTPException 500 ''Request timed out.'')
   \<and> logged (snd (analyze_voice timeout_services sample_request empty_state))
     = [(ERROR, ''Error: Request timed out.'')]
   \<and> assessments (snd (analyze_voice timeout_services sample_request empty_state)) ''uuid''
     = Some \<lparr>doc_user_id = ''user-uuid'', doc_audio_data = ''AAAA'', doc_processed = True,
         doc_transcription = None, doc_analysis = None,
         doc_error = Some ''Request timed out.''\<rparr>"
  unfolding timeout_run by simp

lemma decode_failure:
  assumes "authorize sv req = Inr user" "insert_assessment sv = None" "mark_failed sv = None"
    and "b64decode sv = Inl (Exception cls msg)"
  shows "fst (analyze_voice sv req st) = Inl (HTTPException 500 msg)"
    and "logged (snd (analyze_voice sv req st)) = logged st @ [(ERROR, ''Error: '' @ msg)]"
proof -
  from assms(2,4)
  have "process_recording sv req user (fresh_uuid sv) st =
     (Inl (Exception cls msg),
      st\<lparr>assessments := (assessments st)(fresh_uuid sv \<mapsto>
           \<lparr>doc_user_id = user, doc_audio_data = audio_base64 req, doc_processed = False,
            doc_transcription = None, doc_analysis = None, doc_error = None\<rparr>)\<rparr>)"
    by (simp add: process_recording_def)
  from processing_error_handled [OF assms(1) this assms(3)]
  show "fst (analyze_voice sv req st) = Inl (HTTPException 500 msg)"
    and "logged (snd (analyze_voice sv req st)) = logged st @ [(ERROR, ''Error: '' @ msg)]"
    by simp_all
qed

lemma transcribe_failure:
  assumes "authorize sv req = Inr user" "insert_assessment sv = None" "mark_failed sv = None"
    and "b64decode sv = Inr audio_bytes"
    and "whisper sv audio_bytes = Inl (Exception cls msg)"
  shows "fst (analyze_voice sv req st) = Inl (HTTPException 500 msg)"
    and "logged (snd (analyze_voice sv req st)) = logged st @ [(ERROR, ''Error: '' @ msg)]"
proof -
  from assms(2,4,5)
  have "process_recording sv req user (fresh_uuid sv) st =
     (Inl (Exception cls msg),
      st\<lparr>assessments := (assessments st)(fresh_uuid sv \<mapsto>
           \<lparr>doc_user_id = user, doc_audio_data = audio_base64 req, doc_processed = False,
            doc_transcription = None, doc_analysis = None, doc_error = None\<rparr>)\<rparr>)"
    by (simp add: process_recording_def)
  from processing_error_handled [OF assms(1) this assms(3)]
  show "fst (analyze_voice sv req st) = Inl (HTTPException 500 msg)"
    and "logged (snd (analyze_voice sv req st)) = logged st @ [(ERROR, ''Error: '' @ msg)]"
    by simp_all
qed

text \<open>
  Other exceptions do reach the caller: without the \<open>Authorization\<close> header the handler
  runs before \<open>assessment_id\<close> is assigned, and an exception of the handler's own
  database update replaces the one it handles.
\<close>

lemma missing_header:
  "fst (analyze_voice sample_services anonymous_request empty_state)
     = Inl (Exception ''UnboundLocalError''
         (''cannot access local variable '' @ quoted ''assessment_id''
          @ '' where it is not associated with a value''))"
  "logged (snd (analyze_voice sample_services anonymous_request empty_state))
     = [(ERROR, ''Error: '' @ quoted ''NoneType'' @ '' object has no attribute ''
          @ quoted ''replace'')]"
  by (simp_all add: analyze_voice_def authorize_def get_current_user_def anonymous_request_def
      sample_request_def handle_exception_def Let_def empty_state_def)

lemma handler_update_fails:
  assumes "authorize sv req = Inr user" "insert_assessment sv = None"
    and "b64decode sv = Inl (Exception cls msg)" "mark_failed sv = Some e2"
  shows "fst (analyze_voice sv req st) = Inl e2"
  using assms
  by (simp add: analyze_voice_def process_recording_def handle_exception_def Let_def)

text \<open>
  C7. The endpoint has no \<open>DecodeError\<close> and no \<open>EmptyAudioError\<close>. When the request is
  authorized, the assessment record is created, and the base64 decoding or the
  transcription of the audio raises an exception other than \<open>HTTPException\<close>, then,
  provided the database update of the handler succeeds, the caller gets \<open>HTTPException\<close>
  with status 500 and the text of that exception, and the failure is logged at level
  \<open>ERROR\<close>.
\<close>

theorem audio_failure_is_http_500:
  "(authorize sv req = Inr user \<and> insert_assessment sv = None \<and> mark_failed sv = None
      \<and> b64decode sv = Inl (Exception cls msg)
    \<longrightarrow> fst (analyze_voice sv req st) = Inl (HTTPException 500 msg)
        \<and> logged (snd (analyze_voice sv req st)) = logged st @ [(ERROR, ''Error: '' @ msg)])
   \<and> (authorize sv req = Inr user \<and> insert_assessment sv = None \<and> mark_failed sv = None
      \<and> b64decode sv = Inr audio_bytes \<and> whisper sv audio_bytes = Inl (Exception cls msg)
    \<longrightarrow> fst (analyze_voice sv req st) = Inl (HTTPException 500 msg)
        \<and> logged (snd (analyze_voice sv req st)) = logged st @ [(ERROR, ''Error: '' @ msg)])"
  using decode_failure [of sv req user cls msg st]
    transcribe_failure [of sv req user audio_bytes cls msg st]
  by simp

lemma undecodable_authorize:
  "authorize undecodable_services undecodable_request = Inr ''user-uuid''"
  by (simp add: authorize_def get_current_user_def undecodable_services_def
      sample_services_def undecodable_request_def sample_request_def)

theorem undecodable_audio_is_http_500:
  "fst (analyze_voice undecodable_services undecodable_request empty_state)
     = Inl (HTTPException 500 ''Incorrect padding'')
   \<and> exn_class (HTTPException 500 ''Incorrect padding'') \<noteq> ''DecodeError''"
  using decode_failure(1) [OF undecodable_authorize, of "''Error''" "''Incorrect padding''"
    empty_state]
  by (simp add: undecodable_services_def sample_services_def)

theorem audio_failure_is_http_500_witness:
  "authorize undecodable_services undecodable_request = Inr ''user-uuid''
   \<and> b64decode undecodable_services = Inl (Exception ''Error'' ''Incorrect padding'')
   \<and> fst (analyze_voice undecodable_services undecodable_request empty_state)
     = Inl (HTTPException 500 ''Incorrect padding'')
   \<and> logged (snd (analyze_voice undecodable_services undecodable_request empty_state))
     = [(ERROR, ''Error: Incorrect padding'')]"
  using audio_failure_is_http_500 [of undecodable_services undecodable_request
    "''user-uuid''" "''Error''" "''Incorrect padding''" empty_state]
    undecodable_authorize
  by (simp add: undecodable_services_def sample_services_def empty_state_def)

end
